theory Spec2Isabelle
  imports Complex_Main "HOL-Library.Multiset" "HOL-Library.AList" "HOL-Library.Sublist"
begin

section \<open>Speech commands\<close>

text \<open>
  The speech sequence handed to \<^verbatim>\<open>SynthDriver.speak\<close> is a Python list whose items
  are either \<^verbatim>\<open>str\<close> objects or command objects. The driver dispatches on the class
  of each item with \<^verbatim>\<open>isinstance\<close>, so the sequence is a list over one datatype with a
  constructor per class the driver tests for.

  \<^item> \<open>Text\<close> is a \<^verbatim>\<open>str\<close> item.
  \<^item> \<open>WVLangChangeCommand\<close> is an instance of the driver's own language change class
    (imported from \<^verbatim>\<open>_speechcommand\<close>), \<open>LangChangeCommand\<close> an instance of the host's
    class that is not an instance of the driver's; the field is \<^verbatim>\<open>lang\<close>, which may be
    \<^verbatim>\<open>None\<close>.
  \<^item> \<open>SplitCommand\<close> is the driver's own marker (also from \<^verbatim>\<open>_speechcommand\<close>). It and
    \<open>WVLangChangeCommand\<close> count as subclasses of \<^verbatim>\<open>SpeechCommand\<close>, which only decides
    the wording of a log entry.
  \<^item> A prosody command carries \<^verbatim>\<open>newValue\<close> (read by the VE branch) and
    \<^verbatim>\<open>multiplier\<close> (read by the SAPI5 branch). \<^verbatim>\<open>newValue\<close> is an integer here;
    the multiplier, a Python float, is a real number here.
  \<^item> \<open>PhonemeCommand\<close> carries \<^verbatim>\<open>ipa\<close> and \<^verbatim>\<open>text\<close> (which may be \<^verbatim>\<open>None\<close>).
  \<^item> \<open>OtherSpeechCommand\<close> stands for an instance of any other subclass of
    \<^verbatim>\<open>SpeechCommand\<close>, \<open>UnknownObject\<close> for an item that is neither a string nor a
    \<^verbatim>\<open>SpeechCommand\<close>; the number only tells such items apart.
\<close>

datatype command =
    Text string
  | IndexCommand int
  | CharacterModeCommand bool
  | LangChangeCommand "string option"
  | WVLangChangeCommand "string option"
  | BreakCommand int
  | PitchCommand int real
  | RateCommand int real
  | VolumeCommand int real
  | PhonemeCommand string "string option"
  | SplitCommand
  | OtherSpeechCommand nat
  | UnknownObject nat

fun is_str :: "command \<Rightarrow> bool" where
  "is_str (Text t) = True"
| "is_str c = False"

fun is_langchange :: "command \<Rightarrow> bool" where
  "is_langchange (LangChangeCommand l) = True"
| "is_langchange (WVLangChangeCommand l) = True"
| "is_langchange c = False"

fun is_SpeechCommand :: "command \<Rightarrow> bool" where
  "is_SpeechCommand (Text t) = False"
| "is_SpeechCommand (UnknownObject n) = False"
| "is_SpeechCommand c = True"

section \<open>The stabilizer loop of \<^verbatim>\<open>speak\<close>\<close>

text \<open>
  \<^verbatim>\<open>
  stables = []
  unstables = []
  for command in speechSequence:
      if isinstance(command, LangChangeCommand) or isinstance(command, WVLangChangeCommand):
          unstables.insert(0, command)
          stables.extend(unstables)
          unstables.clear()
      elif isinstance(command, str):
          unstables.append(command)
          stables.extend(unstables)
          unstables.clear()
      else:
          unstables.append(command)
  stables.extend(unstables)
  speechSequence = stables
  \<close>
  The loop is a recursion over the remaining input that threads both lists.
\<close>

fun stabilize_loop :: "command list \<Rightarrow> command list \<Rightarrow> command list \<Rightarrow> command list" where
  "stabilize_loop stables unstables [] = stables @ unstables"
| "stabilize_loop stables unstables (command # rest) =
     (if is_langchange command then stabilize_loop (stables @ (command # unstables)) [] rest
      else if is_str command then stabilize_loop (stables @ (unstables @ [command])) [] rest
      else stabilize_loop stables (unstables @ [command]) rest)"

definition stabilize :: "command list \<Rightarrow> command list" where
  "stabilize speechSequence = stabilize_loop [] [] speechSequence"

text \<open>
  A marker is \<^emph>\<open>unstable\<close> when the loop keeps it pending: it is neither text nor a
  language change.
\<close>

definition is_unstable :: "command \<Rightarrow> bool" where
  "is_unstable c = (\<not> is_langchange c \<and> \<not> is_str c)"

text \<open>
  \<open>hoist_free xs\<close>: no language change in \<open>xs\<close> stands directly behind an unstable
  marker, so the loop has nothing to hoist.
\<close>

fun hoist_free :: "command list \<Rightarrow> bool" where
  "hoist_free [] = True"
| "hoist_free [x] = True"
| "hoist_free (x # y # zs) = ((is_langchange y \<and> is_unstable x) = False \<and> hoist_free (y # zs))"

text \<open>
  \<open>text_separated seen xs\<close>: between any two language changes of \<open>xs\<close> there is a text
  item; \<open>seen\<close> says that a language change has been read since the last text.
\<close>

fun text_separated :: "bool \<Rightarrow> command list \<Rightarrow> bool" where
  "text_separated seen [] = True"
| "text_separated seen (c # cs) =
     (if is_str c then text_separated False cs
      else if is_langchange c then (seen = False \<and> text_separated True cs)
      else text_separated seen cs)"

section \<open>Python string operations\<close>

text \<open>
  A Python \<^verbatim>\<open>str\<close> is a \<open>string\<close>, one \<open>char\<close> for each character; the driver's
  own literals are all ASCII.
\<close>

text \<open>\<^verbatim>\<open>sep.join(xs)\<close>\<close>

fun join :: "string \<Rightarrow> string list \<Rightarrow> string" where
  "join sep [] = []"
| "join sep [x] = x"
| "join sep (x # y # ys) = x @ sep @ join sep (y # ys)"

text \<open>
  \<^verbatim>\<open>s.replace(old, new)\<close>: the occurrences of \<open>old\<close> are replaced from left to right
  and do not overlap; an empty \<open>old\<close> matches before every character and at the end.
\<close>

fun str_replace :: "string \<Rightarrow> string \<Rightarrow> string \<Rightarrow> string" where
  "str_replace old new [] = (if old = [] then new else [])"
| "str_replace old new (c # cs) =
     (if old = [] then new @ c # str_replace old new cs
      else if prefix old (c # cs) then new @ str_replace old new (drop (length old) (c # cs))
      else c # str_replace old new cs)"

text \<open>\<^verbatim>\<open>s.split(d)\<close> for a separator \<open>d\<close> of one character: never an empty list.\<close>

fun split_acc :: "char \<Rightarrow> string \<Rightarrow> string \<Rightarrow> string list" where
  "split_acc d cur [] = [cur]"
| "split_acc d cur (c # cs) =
     (if c = d then cur # split_acc d [] cs else split_acc d (cur @ [c]) cs)"

definition str_split :: "char \<Rightarrow> string \<Rightarrow> string list" where
  "str_split d s = split_acc d [] s"

text \<open>
  \<^verbatim>\<open>s.translate(table)\<close> for a table from characters to replacement strings: a
  character without an entry stays.
\<close>

definition translate :: "(char \<rightharpoonup> string) \<Rightarrow> string \<Rightarrow> string" where
  "translate table s = concat (map (\<lambda>c. case table c of None \<Rightarrow> [c] | Some r \<Rightarrow> r) s)"

text \<open>Truth value of a Python string in a condition: only the empty string is false.\<close>

definition truthy :: "string \<Rightarrow> bool" where
  "truthy s = (s \<noteq> [])"

section \<open>Regular expressions\<close>

text \<open>
  A compiled pattern is its matcher: for the rest of the subject at some position, the
  length of the match that starts there, if there is one. \<^verbatim>\<open>findall\<close> and
  \<^verbatim>\<open>split\<close> scan from left to right and resume behind each match. The patterns of this
  driver that are scanned this way match no empty string; a matcher that answers
  \<open>Some 0\<close> is read as no match.

  \<open>scan p cur s\<close> returns the matches of \<open>p\<close> in \<open>s\<close>, each paired with the text between
  it and the match before (\<open>cur\<close> is that text as far as it has been read), and the text
  behind the last match.
\<close>

type_synonym pattern = "string \<Rightarrow> nat option"

fun scan :: "pattern \<Rightarrow> string \<Rightarrow> string \<Rightarrow> (string \<times> string) list \<times> string" where
  "scan p cur [] = ([], cur)"
| "scan p cur (c # cs) =
     (case p (c # cs) of
        Some (Suc k) \<Rightarrow>
          (case scan p [] (drop k cs) of
             (pairs, lst) \<Rightarrow> ((cur, c # take k cs) # pairs, lst))
      | _ \<Rightarrow> scan p (cur @ [c]) cs)"

definition findall :: "pattern \<Rightarrow> string \<Rightarrow> string list" where
  "findall p s = map snd (fst (scan p [] s))"

definition re_split :: "pattern \<Rightarrow> string \<Rightarrow> string list" where
  "re_split p s = map fst (fst (scan p [] s)) @ [snd (scan p [] s)]"

text \<open>
  \<^verbatim>\<open>number_pattern = re.compile(r"[0-9\-\+]+[0-9.:]*[0-9]+|[0-9]")\<close>

  The matcher follows the backtracking of the \<^verbatim>\<open>re\<close> module: the first alternative
  takes the longest run of \<^verbatim>\<open>[0-9\-\+]\<close>, then the longest run of \<^verbatim>\<open>[0-9.:]\<close>, then
  needs a digit run; while that fails, the second run gives up one character at a time,
  and then the first run does (\<open>try_tail\<close>, \<open>try_head\<close>). The second alternative is one
  digit.
\<close>

definition is_digit :: "char \<Rightarrow> bool" where
  "is_digit c = (c \<in> set ''0123456789'')"

definition is_sign_or_digit :: "char \<Rightarrow> bool" where
  "is_sign_or_digit c = (is_digit c \<or> c = CHR ''-'' \<or> c = CHR ''+'')"

definition is_digit_dot_colon :: "char \<Rightarrow> bool" where
  "is_digit_dot_colon c = (is_digit c \<or> c = CHR ''.'' \<or> c = CHR '':'')"

definition digit_run :: "string \<Rightarrow> nat" where
  "digit_run s = length (takeWhile is_digit s)"

fun try_tail :: "string \<Rightarrow> nat \<Rightarrow> nat option" where
  "try_tail rest 0 = (if 1 \<le> digit_run rest then Some (digit_run rest) else None)"
| "try_tail rest (Suc j) =
     (if 1 \<le> digit_run (drop (Suc j) rest) then Some (Suc j + digit_run (drop (Suc j) rest))
      else try_tail rest j)"

fun try_head :: "string \<Rightarrow> nat \<Rightarrow> nat option" where
  "try_head s 0 = None"
| "try_head s (Suc k) =
     (case try_tail (drop (Suc k) s) (length (takeWhile is_digit_dot_colon (drop (Suc k) s))) of
        Some n \<Rightarrow> Some (Suc k + n)
      | None \<Rightarrow> try_head s k)"

definition number_pattern :: pattern where
  "number_pattern s =
     (case try_head s (length (takeWhile is_sign_or_digit s)) of
        Some n \<Rightarrow> Some n
      | None \<Rightarrow> (case s of [] \<Rightarrow> None | c # cs \<Rightarrow> if is_digit c then Some 1 else None))"

section \<open>The numeric tagger\<close>

text \<open>
  The symbol table \<^verbatim>\<open>speechSymbols.symbols\<close> maps a string to a symbol with a language
  and a replacement (which may be \<^verbatim>\<open>None\<close> or empty). \<^verbatim>\<open>speechSymbols\<close> itself may be
  \<^verbatim>\<open>None\<close>.
\<close>

record symbol =
  symbol_language :: string
  symbol_replacement :: "string option"

type_synonym speech_symbols = "string \<rightharpoonup> symbol"

datatype error = UnboundLocalError string

text \<open>
  \<^verbatim>\<open>
  translate_dict = {}
  for c in "1234567890":
      if speechSymbols and c in speechSymbols.symbols:
          symbol = speechSymbols.symbols[c]
          if symbol.language == numberLanguage or symbol.language == "Windows":
              translate_dict[ord(c)] = symbol.replacement if symbol.replacement else c
  \<close>
\<close>

definition add_digit ::
  "speech_symbols option \<Rightarrow> string \<Rightarrow> char \<Rightarrow> (char \<rightharpoonup> string) \<Rightarrow> (char \<rightharpoonup> string)" where
  "add_digit speechSymbols numberLanguage c translate_dict =
     (case speechSymbols of
        None \<Rightarrow> translate_dict
      | Some symbols \<Rightarrow>
          (case symbols [c] of
             None \<Rightarrow> translate_dict
           | Some symbol \<Rightarrow>
               if symbol_language symbol = numberLanguage \<or> symbol_language symbol = ''Windows''
               then translate_dict(c \<mapsto>
                 (case symbol_replacement symbol of
                    None \<Rightarrow> [c]
                  | Some r \<Rightarrow> if truthy r then r else [c]))
               else translate_dict))"

definition make_translate_dict :: "speech_symbols option \<Rightarrow> string \<Rightarrow> (char \<rightharpoonup> string)" where
  "make_translate_dict speechSymbols numberLanguage =
     fold (add_digit speechSymbols numberLanguage) ''1234567890'' Map.empty"

text \<open>
  The branch of \<^verbatim>\<open>resplit\<close> that handles the segments between dots:
  \<^verbatim>\<open>
  nodot_str = number_str.split(".")
  temp = ""
  for n, d in zip(nodot_str, ["."]*(len(nodot_str) -1)):
      if len(n) == 1 or "number":
          n = n.translate(translate_dict)
      temp = temp +n +d
  n = nodot_str[-1]
  if len(n) == 1 or "number":
      n = n.translate(translate_dict)
  temp = temp +n
  number_str = temp
  number_str = number_str.replace(".", config.conf[...]["numberDotReplacement"])
  \<close>
  The right operand of \<^verbatim>\<open>or\<close> is the string literal \<^verbatim>\<open>"number"\<close>, whose truth value
  decides the condition when the length is not one.
\<close>

definition segment :: "(char \<rightharpoonup> string) \<Rightarrow> string \<Rightarrow> string" where
  "segment translate_dict n =
     (if length n = 1 \<or> truthy ''number'' then translate translate_dict n else n)"

definition segments :: "(char \<rightharpoonup> string) \<Rightarrow> string \<Rightarrow> string \<Rightarrow> string" where
  "segments translate_dict numberDotReplacement number_str =
     (let nodot_str = str_split CHR ''.'' number_str;
          temp = foldl (\<lambda>temp (n, d). temp @ segment translate_dict n @ d) []
                   (zip nodot_str (replicate (length nodot_str - 1) ''.''));
          temp = temp @ segment translate_dict (last nodot_str)
      in str_replace ''.'' numberDotReplacement temp)"

text \<open>
  One round of the loop of \<^verbatim>\<open>resplit\<close> over \<^verbatim>\<open>zip(others, numbers)\<close>. A mode other than
  \<^verbatim>\<open>'value'\<close> and \<^verbatim>\<open>'number'\<close> leaves \<^verbatim>\<open>number_str\<close> unassigned in the first round,
  and reading it raises.
  \<^verbatim>\<open>
  dot_count = len(number.split("."))
  if mode == 'value':
      number_str = number
  elif mode == 'number':
      number_str = ' '.join(number).replace(" . ", ".")
  if dot_count > 2 or mode == 'number':
      ...
  result.extend([other, WVLangChangeCommand('StartNumber'), number_str, WVLangChangeCommand('EndNumber')])
  \<close>
\<close>

definition number_string ::
  "(char \<rightharpoonup> string) \<Rightarrow> string \<Rightarrow> string \<Rightarrow> string \<Rightarrow> error + string" where
  "number_string translate_dict numberDotReplacement mode number =
     (let dot_count = length (str_split CHR ''.'' number) in
      if mode = ''value'' then
        Inr (if dot_count > 2 \<or> mode = ''number''
             then segments translate_dict numberDotReplacement number
             else number)
      else if mode = ''number'' then
        Inr (segments translate_dict numberDotReplacement
               (str_replace '' . '' ''.'' (join '' '' (map (\<lambda>c. [c]) number))))
      else Inl (UnboundLocalError ''number_str''))"

fun resplit_loop ::
  "(char \<rightharpoonup> string) \<Rightarrow> string \<Rightarrow> string \<Rightarrow> (string \<times> string) list \<Rightarrow> error + command list" where
  "resplit_loop translate_dict numberDotReplacement mode [] = Inr []"
| "resplit_loop translate_dict numberDotReplacement mode ((other, number) # rest) =
     (case number_string translate_dict numberDotReplacement mode number of
        Inl e \<Rightarrow> Inl e
      | Inr number_str \<Rightarrow>
          (case resplit_loop translate_dict numberDotReplacement mode rest of
             Inl e \<Rightarrow> Inl e
           | Inr result \<Rightarrow>
               Inr ([Text other, WVLangChangeCommand (Some ''StartNumber''), Text number_str,
                     WVLangChangeCommand (Some ''EndNumber'')] @ result)))"

text \<open>
  \<^verbatim>\<open>resplit(self, pattern, string, mode, numberLanguage, speechSymbols)\<close>; the decimal
  separator \<^verbatim>\<open>numberDotReplacement\<close>, read from the configuration, is a parameter.
\<close>

definition resplit ::
  "string \<Rightarrow> pattern \<Rightarrow> string \<Rightarrow> string \<Rightarrow> string \<Rightarrow> speech_symbols option \<Rightarrow> error + command list" where
  "resplit numberDotReplacement pattern string mode numberLanguage speechSymbols =
     (let translate_dict = make_translate_dict speechSymbols numberLanguage;
          numbers = findall pattern string;
          others = re_split pattern string
      in case resplit_loop translate_dict numberDotReplacement mode (zip others numbers) of
           Inl e \<Rightarrow> Inl e
         | Inr result \<Rightarrow> Inr (result @ [Text (last others)]))"

text \<open>
  \<^verbatim>\<open>coercionNumberLangChange\<close>: the first loop replaces every string of the sequence by
  its \<^verbatim>\<open>resplit\<close>; the second loop rewrites the \<^verbatim>\<open>lang\<close> of the markers. Only an
  instance of \<^verbatim>\<open>WVLangChangeCommand\<close> is looked at there:
  \<^verbatim>\<open>
  currentLang = self.language
  for command in result:
      if isinstance(command, WVLangChangeCommand):
          if command.lang == 'StartNumber':
              command.lang = numberLanguage
          elif command.lang == 'EndNumber':
              command.lang = currentLang
          else:
              currentLang = command.lang
  \<close>
  Each item of the list is a value of its own here: the markers that \<^verbatim>\<open>resplit\<close> adds
  are fresh objects.
\<close>

fun first_pass ::
  "string \<Rightarrow> string \<Rightarrow> string \<Rightarrow> speech_symbols option \<Rightarrow> command list \<Rightarrow> error + command list" where
  "first_pass numberDotReplacement mode numberLanguage speechSymbols [] = Inr []"
| "first_pass numberDotReplacement mode numberLanguage speechSymbols (command # rest) =
     (case (case command of
              Text s \<Rightarrow> resplit numberDotReplacement number_pattern s mode numberLanguage speechSymbols
            | _ \<Rightarrow> Inr [command]) of
        Inl e \<Rightarrow> Inl e
      | Inr items \<Rightarrow>
          (case first_pass numberDotReplacement mode numberLanguage speechSymbols rest of
             Inl e \<Rightarrow> Inl e
           | Inr result \<Rightarrow> Inr (items @ result)))"

fun second_pass :: "string \<Rightarrow> string option \<Rightarrow> command list \<Rightarrow> command list" where
  "second_pass numberLanguage currentLang [] = []"
| "second_pass numberLanguage currentLang (WVLangChangeCommand lang # rest) =
     (if lang = Some ''StartNumber''
        then WVLangChangeCommand (Some numberLanguage) # second_pass numberLanguage currentLang rest
      else if lang = Some ''EndNumber''
        then WVLangChangeCommand currentLang # second_pass numberLanguage currentLang rest
      else WVLangChangeCommand lang # second_pass numberLanguage lang rest)"
| "second_pass numberLanguage currentLang (command # rest) =
     command # second_pass numberLanguage currentLang rest"

text \<open>\<open>language\<close> is \<^verbatim>\<open>self.language\<close>.\<close>

definition coercionNumberLangChange ::
  "string \<Rightarrow> string option \<Rightarrow> command list \<Rightarrow> string \<Rightarrow> string \<Rightarrow> speech_symbols option
   \<Rightarrow> error + command list" where
  "coercionNumberLangChange numberDotReplacement language speechSequence mode numberLanguage
     speechSymbols =
     (case first_pass numberDotReplacement mode numberLanguage speechSymbols speechSequence of
        Inl e \<Rightarrow> Inl e
      | Inr result \<Rightarrow> Inr (second_pass numberLanguage language result))"

section \<open>Rendering and float arithmetic\<close>

text \<open>Decimal rendering of an integer, as \<^verbatim>\<open>"%d" % i\<close>, \<^verbatim>\<open>"%s" % i\<close> and an f-string do.\<close>

fun show_nat :: "nat \<Rightarrow> string" where
  "show_nat n =
     (if n < 10 then [''0123456789'' ! n]
      else show_nat (n div 10) @ [''0123456789'' ! (n mod 10)])"

declare show_nat.simps [simp del]

definition show_int :: "int \<Rightarrow> string" where
  "show_int i = (if i < 0 then CHR ''-'' # show_nat (nat (- i)) else show_nat (nat i))"

text \<open>
  Python floats are real numbers here. \<^verbatim>\<open>round(x)\<close> rounds to the nearest integer and
  a tie to the even one; \<^verbatim>\<open>int(x)\<close> truncates towards zero.
\<close>

definition py_round :: "real \<Rightarrow> int" where
  "py_round x =
     (let f = \<lfloor>x\<rfloor>; d = x - of_int f
      in if d < 1 / 2 then f else if d > 1 / 2 then f + 1 else if even f then f else f + 1)"

definition py_int :: "real \<Rightarrow> int" where
  "py_int x = (if x \<ge> 0 then \<lfloor>x\<rfloor> else \<lceil>x\<rceil>)"

definition ESC :: char where
  "ESC = CHR 0x1B"

definition BACKSLASH :: char where
  "BACKSLASH = CHR 0x5C"

definition QUOTE :: char where
  "QUOTE = CHR 0x22"

text \<open>\<^verbatim>\<open>s.strip()\<close> and \<^verbatim>\<open>s.lower()\<close> on the characters below 256.\<close>

definition is_space :: "char \<Rightarrow> bool" where
  "is_space c = ((of_char c :: nat) \<in> {9, 10, 11, 12, 13, 28, 29, 30, 31, 32, 133, 160})"

definition strip :: "string \<Rightarrow> string" where
  "strip s = rev (dropWhile is_space (rev (dropWhile is_space s)))"

definition lower_char :: "char \<Rightarrow> char" where
  "lower_char c =
     (let n = (of_char c :: nat)
      in if (65 \<le> n \<and> n \<le> 90) \<or> (192 \<le> n \<and> n \<le> 222 \<and> n \<noteq> 215)
         then char_of (n + 32) else c)"

definition lower :: "string \<Rightarrow> string" where
  "lower s = map lower_char s"

section \<open>Voices, the driver and the locals of \<^verbatim>\<open>speak\<close>\<close>

text \<open>
  A voice instance is an object of the voice manager; \<open>vid\<close> is its identity, so that
  \<^verbatim>\<open>newInstance == voiceInstance\<close> is equality of records. \<open>engine\<close> is the string
  \<^verbatim>\<open>voiceInstance.engine\<close>, which the loop compares with \<^verbatim>\<open>"VE"\<close>, \<^verbatim>\<open>"SAPI5"\<close> and
  \<^verbatim>\<open>"aisound"\<close>; \<open>pitch\<close> is the property \<^verbatim>\<open>pitch\<close>, and \<open>raw_pitch\<close>, \<open>raw_volume\<close>,
  \<open>raw_rate\<close> are \<^verbatim>\<open>_pitch\<close>, \<^verbatim>\<open>_volume\<close>, \<^verbatim>\<open>_rate\<close>.
\<close>

datatype engine = VE | SAPI5 | Aisound | OtherEngine

record voice =
  vid :: nat
  engine :: engine
  pitch :: int
  raw_pitch :: int
  raw_volume :: int
  raw_rate :: int

text \<open>
  What \<^verbatim>\<open>speak\<close> reads of the driver and of the modules around it:
  \<^verbatim>\<open>self._voiceManager.defaultVoiceInstance\<close>, \<^verbatim>\<open>self.language\<close>,
  \<^verbatim>\<open>self._voiceManager.getVoiceInstanceForLanguage\<close>, \<^verbatim>\<open>self._convertPhoneme\<close> (\<open>None\<close>
  when it raises \<^verbatim>\<open>LookupError\<close>) and the host's \<^verbatim>\<open>speech.CHUNK_SEPARATOR\<close>.
\<close>

record driver =
  defaultVoiceInstance :: voice
  language :: "string option"
  getVoiceInstanceForLanguage :: "string \<Rightarrow> voice option"
  convertPhoneme :: "string \<Rightarrow> string option"
  CHUNK_SEPARATOR :: string

text \<open>
  The calls that leave \<^verbatim>\<open>speak\<close>, in the order they are made: the methods \<^verbatim>\<open>speak\<close>,
  \<^verbatim>\<open>breaks\<close> and \<^verbatim>\<open>index\<close> of a voice instance, and the log entries
  (\<^verbatim>\<open>"Unsupported speech command"\<close>, \<^verbatim>\<open>"Unknown speech"\<close>, and the one for a phoneme that
  cannot be converted).
\<close>

datatype event =
    Speak voice string
  | Breaks voice int
  | Index voice int
  | LogUnsupported command
  | LogUnknown command
  | LogPhoneme string

text \<open>
  The local variables of \<^verbatim>\<open>speak\<close> from the loop over the stabilized sequence on.
  \<open>tags\<close> is a \<^verbatim>\<open>dict\<close> of \<^verbatim>\<open>dict\<close>s, kept in insertion order; \<open>item\<close> is \<open>None\<close> while
  the variable \<^verbatim>\<open>item\<close> is unassigned; \<open>calls\<close> collects the calls made so far.
\<close>

record locals =
  voiceInstance :: voice
  currentLanguage :: "string option"
  chunks :: "string list"
  hasText :: bool
  charMode :: bool
  textList :: "string list"
  tags :: "(string \<times> (string \<times> int) list) list"
  tagsChanged :: bool
  openedTags :: "string list"
  item :: "command option"
  calls :: "event list"

definition init_locals :: "driver \<Rightarrow> locals" where
  "init_locals self =
     \<lparr>voiceInstance = defaultVoiceInstance self, currentLanguage = language self,
      chunks = [], hasText = False, charMode = False, textList = [], tags = [],
      tagsChanged = True, openedTags = [], item = None, calls = []\<rparr>"

definition emit :: "event \<Rightarrow> locals \<Rightarrow> locals" where
  "emit e s = s\<lparr>calls := calls s @ [e]\<rparr>"

text \<open>\<^verbatim>\<open>speech.CHUNK_SEPARATOR.join(chunks).replace("  \x1b", "\x1b")\<close>\<close>

definition payload :: "driver \<Rightarrow> string list \<Rightarrow> string" where
  "payload self cs = str_replace [CHR '' '', CHR '' '', ESC] [ESC] (join (CHUNK_SEPARATOR self) cs)"

text \<open>An inline directive of the VE engine: \<^verbatim>\<open>f"\x1b\\name=value\\"\<close>.\<close>

definition directive :: "string \<Rightarrow> string \<Rightarrow> string" where
  "directive name v = [ESC, BACKSLASH] @ name @ ''='' @ v @ [BACKSLASH]"

text \<open>
  \<^verbatim>\<open>
  def outputTags():
      if not tagsChanged[0]:
          return
      for tag in reversed(openedTags):
          textList.append("</%s>" % tag)
      del openedTags[:]
      for tag, attrs in tags.items():
          textList.append("<%s" % tag)
          for attr, val in attrs.items():
              textList.append(' %s="%s"' % (attr, val))
          textList.append(">")
          openedTags.append(tag)
      tagsChanged[0] = False
      if voiceInstance.engine == "SAPI5":
          tags["pitch"] = {"absmiddle": voiceInstance._pitch}
  \<close>
\<close>

definition open_tag :: "string \<times> (string \<times> int) list \<Rightarrow> string list" where
  "open_tag ta =
     [''<'' @ fst ta]
     @ map (\<lambda>av. '' '' @ fst av @ ''='' @ [QUOTE] @ show_int (snd av) @ [QUOTE]) (snd ta)
     @ [''>'']"

definition seed_pitch :: "voice \<Rightarrow> locals \<Rightarrow> locals" where
  "seed_pitch v s =
     (if engine v = SAPI5
      then s\<lparr>tags := AList.update ''pitch'' [(''absmiddle'', raw_pitch v)] (tags s)\<rparr>
      else s)"

definition outputTags :: "locals \<Rightarrow> locals" where
  "outputTags s =
     (if \<not> tagsChanged s then s
      else seed_pitch (voiceInstance s)
             (s\<lparr>textList := textList s
                    @ map (\<lambda>tag. ''</'' @ tag @ ''>'') (rev (openedTags s))
                    @ concat (map open_tag (tags s)),
                 openedTags := map fst (tags s),
                 tagsChanged := False\<rparr>))"

section \<open>Language changes\<close>

text \<open>
  The three engine branches share the head of the language change:
  \<^verbatim>\<open>
  if command.lang == currentLanguage:
      continue
  if command.lang is None:
      voiceInstance = defaultInstance
      currentLanguage = defaultLanguage
      continue
  newInstance = self._voiceManager.getVoiceInstanceForLanguage(command.lang)
  currentLanguage = command.lang
  if newInstance is None:
      newInstance = defaultInstance
  if newInstance == voiceInstance:
      continue
  ...                                  # what the branch sends to the old voice
  voiceInstance = newInstance
  if voiceInstance.engine == "SAPI5":
      tags["pitch"] = {"absmiddle": voiceInstance._pitch}
  \<close>
  \<open>resolve\<close> is the voice a language code stands for; \<open>flush_old\<close> is the part that
  differs between the branches.
\<close>

definition resolve :: "driver \<Rightarrow> string \<Rightarrow> voice" where
  "resolve self code =
     (case getVoiceInstanceForLanguage self code of
        None \<Rightarrow> defaultVoiceInstance self
      | Some newInstance \<Rightarrow> newInstance)"

definition change_language ::
  "driver \<Rightarrow> (locals \<Rightarrow> locals) \<Rightarrow> string option \<Rightarrow> locals \<Rightarrow> locals" where
  "change_language self flush_old lang s =
     (if lang = currentLanguage s then s
      else case lang of
        None \<Rightarrow> s\<lparr>voiceInstance := defaultVoiceInstance self, currentLanguage := language self\<rparr>
      | Some code \<Rightarrow>
          if resolve self code = voiceInstance s then s\<lparr>currentLanguage := Some code\<rparr>
          else seed_pitch (resolve self code)
                 ((flush_old (s\<lparr>currentLanguage := Some code\<rparr>))
                    \<lparr>voiceInstance := resolve self code\<rparr>))"

text \<open>
  VE:
  \<^verbatim>\<open>
  if hasText: # We changed voice, send what we already have to vocalizer.
      voiceInstance.speak(speech.CHUNK_SEPARATOR.join(chunks).replace("  \x1b", "\x1b"))
  chunks = []
  hasText = False
  \<close>
\<close>

definition ve_flush_old :: "driver \<Rightarrow> locals \<Rightarrow> locals" where
  "ve_flush_old self s =
     (if hasText s then emit (Speak (voiceInstance s) (payload self (chunks s))) s else s)
       \<lparr>chunks := [], hasText := False\<rparr>"

text \<open>
  SAPI5 (also the end of the stream):
  \<^verbatim>\<open>
  tags.clear()
  tagsChanged[0] = True
  outputTags()
  text = "".join(textList)
  voiceInstance.speak(text)
  textList.clear()
  \<close>
\<close>

definition sapi5_flush :: "locals \<Rightarrow> locals" where
  "sapi5_flush s =
     (let s1 = outputTags (s\<lparr>tags := [], tagsChanged := True\<rparr>)
      in (emit (Speak (voiceInstance s1) (concat (textList s1))) s1)\<lparr>textList := []\<rparr>)"

text \<open>
  aisound:
  \<^verbatim>\<open>
  voiceInstance.speak(speech.CHUNK_SEPARATOR.join(chunks).replace("  \x1b", "\x1b"))
  voiceInstance = newInstance
  charMode=False
  \<close>
\<close>

definition aisound_flush_old :: "driver \<Rightarrow> locals \<Rightarrow> locals" where
  "aisound_flush_old self s =
     (emit (Speak (voiceInstance s) (payload self (chunks s))) s)\<lparr>charMode := False\<rparr>"

section \<open>The loop of \<^verbatim>\<open>speak\<close> over the stabilized sequence\<close>

text \<open>
  The VE branch maps rate and pitch through an exponential curve:
  \<^verbatim>\<open>
  boundedValue = max(0, min(command.newValue, 100))
  factor = 25.0 if boundedValue >= 50 else 50.0        # 50.0 for pitch
  norm = 2.0 ** ((boundedValue - 50.0) / factor)
  value = int(round(norm * 100))
  \<close>
\<close>

definition boundedValue :: "int \<Rightarrow> int" where
  "boundedValue newValue = max 0 (min newValue 100)"

definition ve_rate :: "int \<Rightarrow> int" where
  "ve_rate newValue =
     (let factor = (if boundedValue newValue \<ge> 50 then 25 else 50);
          norm = 2 powr ((of_int (boundedValue newValue) - 50) / factor)
      in py_round (norm * 100))"

definition ve_pitch :: "int \<Rightarrow> int" where
  "ve_pitch newValue =
     (let factor = 50;
          norm = 2 powr ((of_int (boundedValue newValue) - 50) / factor)
      in py_round (norm * 100))"

definition append_chunk :: "string \<Rightarrow> locals \<Rightarrow> locals" where
  "append_chunk c s = s\<lparr>chunks := chunks s @ [c]\<rparr>"

definition append_text :: "string \<Rightarrow> locals \<Rightarrow> locals" where
  "append_text t s = s\<lparr>textList := textList s @ [t]\<rparr>"

text \<open>
  The last two branches of each engine's chain. The VE branch reads \<^verbatim>\<open>item\<close>, which is
  assigned in the SAPI5 and aisound branches only (\<^verbatim>\<open>item = command\<close>): while it is
  unassigned the read raises, afterwards it is the item of an earlier round.
  \<^verbatim>\<open>
  elif isinstance(item, SpeechCommand):
      log.debugWarning("Unsupported speech command: %s" % item)
  else:
      log.error("Unknown speech: %s" % item)
  \<close>
\<close>

definition log_item :: "command \<Rightarrow> locals \<Rightarrow> locals" where
  "log_item it s = emit (if is_SpeechCommand it then LogUnsupported it else LogUnknown it) s"

text \<open>The VE branch (\<^verbatim>\<open>if voiceInstance.engine == "VE":\<close>).\<close>

definition ve_text :: "string \<Rightarrow> locals \<Rightarrow> locals" where
  "ve_text t s =
     (let command = strip t in
      if command = [] then s
      else (append_chunk
              (str_replace [ESC] []
                 (if charMode s \<or> length command = 1 then lower command else command)) s)
             \<lparr>hasText := True\<rparr>)"

definition ve_speak_chunks :: "driver \<Rightarrow> locals \<Rightarrow> locals" where
  "ve_speak_chunks self s =
     (emit (Speak (voiceInstance s) (payload self (chunks s))) s)\<lparr>chunks := [], hasText := False\<rparr>"

fun ve_step :: "driver \<Rightarrow> command \<Rightarrow> locals \<Rightarrow> error + locals" where
  "ve_step self (Text t) s = Inr (ve_text t s)"
| "ve_step self (IndexCommand index) s = Inr (append_chunk (directive ''mrk'' (show_int index)) s)"
| "ve_step self (BreakCommand time) s =
     Inr (emit (Breaks (voiceInstance s) time) (ve_speak_chunks self s))"
| "ve_step self (RateCommand newValue multiplier) s =
     Inr (append_chunk (directive ''rate'' (show_int (ve_rate newValue))) s)"
| "ve_step self (PitchCommand newValue multiplier) s =
     Inr (append_chunk (directive ''pitch'' (show_int (ve_pitch newValue))) s)"
| "ve_step self (VolumeCommand newValue multiplier) s =
     Inr (append_chunk (directive ''vol'' (show_int (boundedValue newValue))) s)"
| "ve_step self (CharacterModeCommand state) s =
     Inr (append_chunk (directive ''tn'' (if state then ''spell'' else ''normal''))
            (s\<lparr>charMode := state\<rparr>))"
| "ve_step self SplitCommand s = Inr (ve_speak_chunks self s)"
| "ve_step self (LangChangeCommand lang) s = Inr (change_language self (ve_flush_old self) lang s)"
| "ve_step self (WVLangChangeCommand lang) s = Inr (change_language self (ve_flush_old self) lang s)"
| "ve_step self command s =
     (case item s of
        None \<Rightarrow> Inl (UnboundLocalError ''item'')
      | Some it \<Rightarrow> Inr (log_item it s))"

text \<open>
  The SAPI5 branch, after its \<^verbatim>\<open>item = command\<close>. A prosody command computes the tag
  value from the voice and the multiplier, for the pitch
  \<^verbatim>\<open>int((voiceInstance.pitch * item.multiplier) // 2 - 25)\<close>.
\<close>

definition set_tag :: "string \<Rightarrow> (string \<times> int) list \<Rightarrow> locals \<Rightarrow> locals" where
  "set_tag tag attrs s = s\<lparr>tags := AList.update tag attrs (tags s), tagsChanged := True\<rparr>"

definition del_tag :: "string \<Rightarrow> locals \<Rightarrow> locals" where
  "del_tag tag s = s\<lparr>tags := AList.delete tag (tags s), tagsChanged := True\<rparr>"

fun sapi5_step :: "driver \<Rightarrow> command \<Rightarrow> locals \<Rightarrow> locals" where
  "sapi5_step self (Text t) s = append_text (str_replace ''<'' ''&lt;'' t) (outputTags s)"
| "sapi5_step self (IndexCommand index) s =
     append_text (''<Bookmark Mark='' @ [QUOTE] @ show_int index @ [QUOTE] @ '' />'') s"
| "sapi5_step self (CharacterModeCommand state) s =
     (if state then set_tag ''spell'' [] s else del_tag ''spell'' s)"
| "sapi5_step self (BreakCommand time) s =
     append_text (''<silence msec='' @ [QUOTE] @ show_int time @ [QUOTE] @ '' />'') s"
| "sapi5_step self (PitchCommand newValue multiplier) s =
     set_tag ''pitch''
       [(''absmiddle'',
         py_int (of_int \<lfloor>(of_int (pitch (voiceInstance s)) * multiplier) / 2\<rfloor> - 25))] s"
| "sapi5_step self (VolumeCommand newValue multiplier) s =
     (if multiplier = 1 then del_tag ''volume'' s
      else set_tag ''volume''
             [(''level'', py_int (of_int (raw_volume (voiceInstance s)) * multiplier))] s)"
| "sapi5_step self (RateCommand newValue multiplier) s =
     (if multiplier = 1 then del_tag ''rate'' s
      else set_tag ''rate''
             [(''absspeed'', py_int (of_int (raw_rate (voiceInstance s)) * multiplier))] s)"
| "sapi5_step self (PhonemeCommand ipa text) s =
     (case convertPhoneme self ipa of
        Some phonemes \<Rightarrow>
          append_text (''<pron sym='' @ [QUOTE] @ phonemes @ [QUOTE] @ ''>''
                       @ (case text of None \<Rightarrow> [] | Some t \<Rightarrow> t) @ ''</pron>'') s
      | None \<Rightarrow>
          (case text of
             None \<Rightarrow> emit (LogPhoneme ipa) s
           | Some t \<Rightarrow> if truthy t then append_text t (emit (LogPhoneme ipa) s)
                       else emit (LogPhoneme ipa) s))"
| "sapi5_step self (LangChangeCommand lang) s = change_language self sapi5_flush lang s"
| "sapi5_step self (WVLangChangeCommand lang) s = change_language self sapi5_flush lang s"
| "sapi5_step self command s = log_item command s"

text \<open>The aisound branch, after its \<^verbatim>\<open>item = command\<close>.\<close>

fun aisound_step :: "driver \<Rightarrow> command \<Rightarrow> locals \<Rightarrow> locals" where
  "aisound_step self (Text t) s =
     emit (Speak (voiceInstance s)
             (if charMode s then join '' '' (map (\<lambda>x. [x]) t) else t)) s"
| "aisound_step self (IndexCommand index) s = emit (Index (voiceInstance s) index) s"
| "aisound_step self (CharacterModeCommand state) s = s\<lparr>charMode := state\<rparr>"
| "aisound_step self (LangChangeCommand lang) s =
     change_language self (aisound_flush_old self) lang s"
| "aisound_step self (WVLangChangeCommand lang) s =
     change_language self (aisound_flush_old self) lang s"
| "aisound_step self command s = log_item command s"

text \<open>
  One round of \<^verbatim>\<open>for command in speechSequence\<close>: the branch is chosen by the engine of
  the voice that is active when the round starts; a voice of another engine matches no
  branch.
\<close>

definition step :: "driver \<Rightarrow> command \<Rightarrow> locals \<Rightarrow> error + locals" where
  "step self command s =
     (case engine (voiceInstance s) of
        VE \<Rightarrow> ve_step self command s
      | SAPI5 \<Rightarrow> Inr (sapi5_step self command (s\<lparr>item := Some command\<rparr>))
      | Aisound \<Rightarrow> Inr (aisound_step self command (s\<lparr>item := Some command\<rparr>))
      | OtherEngine \<Rightarrow> Inr s)"

text \<open>
  The loop stops at the first round that raises; the locals then are those the round
  started with, and the calls made before stay made.
\<close>

fun run_loop :: "driver \<Rightarrow> command list \<Rightarrow> locals \<Rightarrow> error option \<times> locals" where
  "run_loop self [] s = (None, s)"
| "run_loop self (command # rest) s =
     (case step self command s of
        Inl e \<Rightarrow> (Some e, s)
      | Inr s' \<Rightarrow> run_loop self rest s')"

text \<open>
  After the loop:
  \<^verbatim>\<open>
  if voiceInstance.engine == "VE":
      if chunks:
          voiceInstance.speak(speech.CHUNK_SEPARATOR.join(chunks).replace("  \x1b", "\x1b"))
  elif voiceInstance.engine == "SAPI5":
      ...                              # as at a change of voice
  elif voiceInstance.engine == "aisound":
      voiceInstance.speak(speech.CHUNK_SEPARATOR.join(chunks).replace("  \x1b", "\x1b"))
  \<close>
\<close>

definition final_flush :: "driver \<Rightarrow> locals \<Rightarrow> locals" where
  "final_flush self s =
     (case engine (voiceInstance s) of
        VE \<Rightarrow> if chunks s \<noteq> [] then emit (Speak (voiceInstance s) (payload self (chunks s))) s
              else s
      | SAPI5 \<Rightarrow> sapi5_flush s
      | Aisound \<Rightarrow> emit (Speak (voiceInstance s) (payload self (chunks s))) s
      | OtherEngine \<Rightarrow> s)"

text \<open>
  \<open>multiplex\<close> is \<^verbatim>\<open>speak\<close> from the assignment of \<^verbatim>\<open>voiceInstance\<close> on, for a sequence
  that has been stabilized; \<open>speak_stabilized\<close> is \<^verbatim>\<open>speak\<close> from the stabilizer loop on.
  The result is the list of calls made and the exception that ended the call, if any.
\<close>

definition multiplex :: "driver \<Rightarrow> command list \<Rightarrow> event list \<times> error option" where
  "multiplex self speechSequence =
     (case run_loop self speechSequence (init_locals self) of
        (Some e, s) \<Rightarrow> (calls s, Some e)
      | (None, s) \<Rightarrow> (calls (final_flush self s), None))"

definition speak_stabilized :: "driver \<Rightarrow> command list \<Rightarrow> event list \<times> error option" where
  "speak_stabilized self speechSequence = multiplex self (stabilize speechSequence)"

section \<open>Text content of a sequence and of the calls\<close>


fun speak_payloads :: "event list \<Rightarrow> string list" where
  "speak_payloads [] = []"
| "speak_payloads (Speak v p # es) = p # speak_payloads es"
| "speak_payloads (e # es) = speak_payloads es"







section \<open>Invariants of the loop\<close>

text \<open>
  The predicates below state what the loop maintains when every voice the driver can reach
  is of one engine; they are used in the proofs about the text content only.
\<close>








text \<open>
  SAPI5: what has been sent so far followed by the markup buffer.
\<close>

definition pending :: "locals \<Rightarrow> string" where
  "pending s = concat (speak_payloads (calls s)) @ concat (textList s)"




section \<open>Example voices and drivers\<close>

text \<open>
  Concrete inputs for the evaluations below: a voice of a given identity and engine, and
  a driver whose default language is \<^verbatim>\<open>en\<close>, whose voice manager knows a voice for
  \<^verbatim>\<open>fr\<close> only, and whose host uses two spaces as \<^verbatim>\<open>CHUNK_SEPARATOR\<close>.
\<close>

definition example_voice :: "nat \<Rightarrow> engine \<Rightarrow> voice" where
  "example_voice n e =
     \<lparr>vid = n, engine = e, pitch = 50, raw_pitch = 0, raw_volume = 100, raw_rate = 0\<rparr>"

definition example_driver :: "voice \<Rightarrow> voice \<Rightarrow> driver" where
  "example_driver main_voice french =
     \<lparr>defaultVoiceInstance = main_voice, language = Some ''en'',
      getVoiceInstanceForLanguage = (\<lambda>code. if code = ''fr'' then Some french else None),
      convertPhoneme = (\<lambda>ipa. None), CHUNK_SEPARATOR = ''  ''\<rparr>"

section \<open>Properties of the stabilizer\<close>

lemma stabilize_loop_prefix:
  "stabilize_loop st un xs = st @ stabilize_loop [] un xs"
proof (induction xs arbitrary: st un)
  case Nil
  show ?case by simp
next
  case (Cons c cs)
  show ?case
  proof (cases "is_langchange c")
    case True
    then show ?thesis
      using Cons.IH [of "st @ (c # un)" "[]"] Cons.IH [of "c # un" "[]"] by simp
  next
    case False
    then show ?thesis
      using Cons.IH [of "st @ (un @ [c])" "[]"] Cons.IH [of "un @ [c]" "[]"]
        Cons.IH [of st "un @ [c]"]
      by simp
  qed
qed

lemma mset_stabilize_loop:
  "mset (stabilize_loop st un xs) = mset st + mset un + mset xs"
  by (induction xs arbitrary: st un) simp_all

text \<open>
  Claim C10. The stabilizer outputs a permutation of its input: every instruction of the
  input occurs in the output as often as in the input, and nothing else does.
\<close>

theorem stabilize_permutation: "mset (stabilize xs) = mset xs"
  by (simp add: stabilize_def mset_stabilize_loop)

lemma hoist_free_append:
  "hoist_free (xs @ ys) =
     (hoist_free xs \<and> hoist_free ys \<and>
      (xs = [] \<or> ys = [] \<or> (is_langchange (hd ys) \<and> is_unstable (last xs)) = False))"
proof (induction xs rule: hoist_free.induct)
  case 1
  show ?case by simp
next
  case (2 x)
  show ?case by (cases ys) auto
next
  case (3 x y zs)
  then show ?case by auto
qed

lemma hoist_free_unstables: "list_all is_unstable un \<Longrightarrow> hoist_free un"
proof (induction un rule: hoist_free.induct)
  case (3 x y zs)
  then show ?case by (simp add: is_unstable_def)
qed simp_all

lemma stabilize_loop_langchange:
  "is_langchange c \<Longrightarrow> stabilize_loop [] un (c # cs) = (c # un) @ stabilize_loop [] [] cs"
  using stabilize_loop_prefix [of "c # un" "[]" cs] by simp

lemma stabilize_loop_str:
  "\<not> is_langchange c \<Longrightarrow> is_str c \<Longrightarrow>
   stabilize_loop [] un (c # cs) = (un @ [c]) @ stabilize_loop [] [] cs"
  using stabilize_loop_prefix [of "un @ [c]" "[]" cs] by simp

lemma stabilize_loop_unstable:
  "is_unstable c \<Longrightarrow> stabilize_loop [] un (c # cs) = stabilize_loop [] (un @ [c]) cs"
  by (simp add: is_unstable_def)

lemma stabilize_loop_fixed:
  "list_all is_unstable un \<Longrightarrow>
   (stabilize_loop [] un xs = un @ xs) = hoist_free (un @ xs)"
proof (induction xs arbitrary: un)
  case Nil
  then show ?case by (simp add: hoist_free_unstables)
next
  case (Cons c cs)
  note IH0 = Cons.IH [of "[]", simplified]
  show ?case
  proof (cases "is_langchange c")
    case lc: True
    have nu: "\<not> is_unstable c" using lc by (simp add: is_unstable_def)
    show ?thesis
    proof (cases un)
      case Nil
      then show ?thesis
        using lc nu IH0 hoist_free_append [of "[c]" cs]
        by (simp add: stabilize_loop_langchange del: stabilize_loop.simps)
    next
      case (Cons u us)
      have ul: "is_unstable (last un)" "is_unstable u"
        using Cons.prems Cons by (auto simp: list_all_iff)
      have "stabilize_loop [] un (c # cs) \<noteq> un @ c # cs"
        using lc nu ul Cons by (auto simp: stabilize_loop_langchange simp del: stabilize_loop.simps)
      moreover have "\<not> hoist_free (un @ c # cs)"
        using lc ul Cons hoist_free_append [of un "c # cs"] by simp
      ultimately show ?thesis by simp
    qed
  next
    case nlc: False
    show ?thesis
    proof (cases "is_str c")
      case True
      have nu: "\<not> is_unstable c" using True by (simp add: is_unstable_def)
      have "hoist_free (un @ c # cs) = hoist_free cs"
        using nlc nu Cons.prems hoist_free_append [of un "c # cs"]
          hoist_free_append [of "[c]" cs] hoist_free_unstables [of un]
        by auto
      then show ?thesis using nlc True IH0
        by (simp add: stabilize_loop_str del: stabilize_loop.simps)
    next
      case False
      then have u: "is_unstable c" using nlc by (simp add: is_unstable_def)
      have "list_all is_unstable (un @ [c])" using u Cons.prems by simp
      from Cons.IH [OF this] show ?thesis using u
        by (simp add: stabilize_loop_unstable del: stabilize_loop.simps)
    qed
  qed
qed

lemma stabilize_fixed_iff: "(stabilize ys = ys) = hoist_free ys"
  using stabilize_loop_fixed [of "[]" ys] by (simp add: stabilize_def)

lemma stabilize_loop_separated:
  "text_separated seen xs \<Longrightarrow> list_all is_unstable un \<Longrightarrow>
   hoist_free (stabilize_loop [] un xs) \<and>
   (seen \<longrightarrow> stabilize_loop [] un xs = [] \<or> \<not> is_langchange (hd (stabilize_loop [] un xs)))"
proof (induction xs arbitrary: un seen)
  case Nil
  have "un = [] \<or> \<not> is_langchange (hd un)"
    using Nil.prems(2) by (cases un) (auto simp: is_unstable_def)
  then show ?case
    using hoist_free_unstables [OF Nil.prems(2)] by simp
next
  case (Cons c cs)
  show ?case
  proof (cases "is_langchange c")
    case lc: True
    then have sep: "seen = False" "text_separated True cs"
      using Cons.prems(1) by (cases c; simp)+
    have IH: "hoist_free (stabilize_loop [] [] cs)"
      "stabilize_loop [] [] cs = [] \<or> \<not> is_langchange (hd (stabilize_loop [] [] cs))"
      using Cons.IH [OF sep(2), of "[]"] by simp_all
    have "un = [] \<or> \<not> is_langchange (hd un)"
      using Cons.prems(2) by (cases un) (auto simp: is_unstable_def)
    then have hun: "hoist_free (c # un)"
      using hoist_free_append [of "[c]" un] hoist_free_unstables [OF Cons.prems(2)]
      by auto
    show ?thesis
      using lc sep IH hun hoist_free_append [of "c # un" "stabilize_loop [] [] cs"]
      by (auto simp: stabilize_loop_langchange simp del: stabilize_loop.simps)
  next
    case nlc: False
    show ?thesis
    proof (cases "is_str c")
      case True
      then have sep: "text_separated False cs" using Cons.prems(1) nlc by simp
      have IH: "hoist_free (stabilize_loop [] [] cs)"
        using Cons.IH [OF sep, of "[]"] by simp
      have nu: "\<not> is_unstable c" using True by (simp add: is_unstable_def)
      have hun: "hoist_free (un @ [c])"
        using nlc hoist_free_append [of un "[c]"] hoist_free_unstables [OF Cons.prems(2)]
        by auto
      have hd: "\<not> is_langchange (hd (un @ c # ys))" for ys
        using Cons.prems(2) nlc by (cases un) (auto simp: is_unstable_def)
      show ?thesis
        using nlc True IH hun hd nu hoist_free_append [of "un @ [c]" "stabilize_loop [] [] cs"]
        by (auto simp: stabilize_loop_str simp del: stabilize_loop.simps)
    next
      case False
      then have u: "is_unstable c" using nlc by (simp add: is_unstable_def)
      have sep: "text_separated seen cs" using Cons.prems(1) nlc False by simp
      have "list_all is_unstable (un @ [c])" using u Cons.prems(2) by simp
      from Cons.IH [OF sep this] show ?thesis using u
        by (simp add: stabilize_loop_unstable del: stabilize_loop.simps)
    qed
  qed
qed

text \<open>
  Claim C8, as amended. Applying the stabilizer to its own output leaves that output
  unchanged exactly when no language change in the output stands directly behind an
  unstable marker; this is the case for every input in which a text item separates any
  two language changes.
\<close>

theorem stabilize_idempotent_amended:
  "(stabilize (stabilize xs) = stabilize xs) = hoist_free (stabilize xs) \<and>
   (text_separated False xs \<longrightarrow> stabilize (stabilize xs) = stabilize xs)"
proof -
  have a: "(stabilize (stabilize xs) = stabilize xs) = hoist_free (stabilize xs)"
    by (rule stabilize_fixed_iff)
  have "text_separated False xs \<Longrightarrow> hoist_free (stabilize xs)"
    using stabilize_loop_separated [of False xs "[]"] by (simp add: stabilize_def)
  with a show ?thesis by simp
qed

theorem stabilize_idempotent_amended_witness:
  "text_separated False [IndexCommand 1, LangChangeCommand (Some ''fr''), Text ''bonjour'',
      IndexCommand 2, LangChangeCommand None]
   \<and> stabilize (stabilize [IndexCommand 1, LangChangeCommand (Some ''fr''), Text ''bonjour'',
      IndexCommand 2, LangChangeCommand None])
     = [LangChangeCommand (Some ''fr''), IndexCommand 1, Text ''bonjour'',
      LangChangeCommand None, IndexCommand 2]"
  using stabilize_idempotent_amended [of "[IndexCommand 1, LangChangeCommand (Some ''fr''),
      Text ''bonjour'', IndexCommand 2, LangChangeCommand None]"]
  by (simp add: stabilize_def)

text \<open>
  Claim C8 as stated fails: the first pass hoists the first language change over the
  index marker, which then stands directly before the second language change, and the
  second pass hoists that one as well.
\<close>

theorem stabilize_not_idempotent:
  "stabilize (stabilize [IndexCommand 1, LangChangeCommand (Some ''a''), LangChangeCommand (Some ''b'')])
   \<noteq> stabilize [IndexCommand 1, LangChangeCommand (Some ''a''), LangChangeCommand (Some ''b'')]"
  by (simp add: stabilize_def)

section \<open>Properties of the loop over the stabilized sequence\<close>

lemmas step_simps =
  step_def emit_def ve_speak_chunks_def append_chunk_def append_text_def log_item_def

text \<open>
  Claim C3, as amended. What a \<^verbatim>\<open>BreakCommand\<close> does depends on the engine of the active
  voice. Under VE the chunks buffered so far are sent to the active voice with \<^verbatim>\<open>speak\<close>
  (whether or not a voice change occurred, and also when the buffer is empty), then the
  pause is sent to the same voice with \<^verbatim>\<open>breaks\<close>, and the buffer is empty afterwards.
  Under SAPI5 nothing is sent: the pause is appended to the markup buffer as a
  \<^verbatim>\<open>silence\<close> element behind the text buffered so far, and reaches the voice with the next
  flush. Under aisound the command is logged as unsupported and no pause is sent.
\<close>

theorem break_by_engine:
  "(engine (voiceInstance s) = VE \<longrightarrow>
      step self (BreakCommand time) s =
        Inr (s\<lparr>chunks := [], hasText := False,
               calls := calls s @ [Speak (voiceInstance s) (payload self (chunks s)),
                                   Breaks (voiceInstance s) time]\<rparr>)) \<and>
   (engine (voiceInstance s) = SAPI5 \<longrightarrow>
      step self (BreakCommand time) s =
        Inr (s\<lparr>textList := textList s @ [''<silence msec='' @ [QUOTE] @ show_int time @ [QUOTE] @ '' />''],
               item := Some (BreakCommand time)\<rparr>)) \<and>
   (engine (voiceInstance s) = Aisound \<longrightarrow>
      step self (BreakCommand time) s =
        Inr (s\<lparr>item := Some (BreakCommand time),
               calls := calls s @ [LogUnsupported (BreakCommand time)]\<rparr>))"
  by (simp add: step_simps)

theorem break_by_engine_witness:
  "step (example_driver (example_voice 0 VE) (example_voice 1 VE)) (BreakCommand 500)
     ((init_locals (example_driver (example_voice 0 VE) (example_voice 1 VE)))
        \<lparr>chunks := [''a''], hasText := True\<rparr>)
   = Inr ((init_locals (example_driver (example_voice 0 VE) (example_voice 1 VE)))
        \<lparr>calls := [Speak (example_voice 0 VE) ''a'', Breaks (example_voice 0 VE) 500]\<rparr>)
   \<and>
   step (example_driver (example_voice 0 SAPI5) (example_voice 1 VE)) (BreakCommand 500)
     ((init_locals (example_driver (example_voice 0 SAPI5) (example_voice 1 VE)))
        \<lparr>textList := [''a'']\<rparr>)
   = Inr ((init_locals (example_driver (example_voice 0 SAPI5) (example_voice 1 VE)))
        \<lparr>textList := [''a'', ''<silence msec='' @ [QUOTE] @ show_int 500 @ [QUOTE] @ '' />''],
          item := Some (BreakCommand 500)\<rparr>)
   \<and>
   step (example_driver (example_voice 0 Aisound) (example_voice 1 VE)) (BreakCommand 500)
     (init_locals (example_driver (example_voice 0 Aisound) (example_voice 1 VE)))
   = Inr ((init_locals (example_driver (example_voice 0 Aisound) (example_voice 1 VE)))
        \<lparr>item := Some (BreakCommand 500), calls := [LogUnsupported (BreakCommand 500)]\<rparr>)"
  using break_by_engine [of "(init_locals (example_driver (example_voice 0 VE) (example_voice 1 VE)))
        \<lparr>chunks := [''a''], hasText := True\<rparr>" "example_driver (example_voice 0 VE) (example_voice 1 VE)" 500]
    break_by_engine [of "(init_locals (example_driver (example_voice 0 SAPI5) (example_voice 1 VE)))
        \<lparr>textList := [''a'']\<rparr>" "example_driver (example_voice 0 SAPI5) (example_voice 1 VE)" 500]
    break_by_engine [of "init_locals (example_driver (example_voice 0 Aisound) (example_voice 1 VE))"
        "example_driver (example_voice 0 Aisound) (example_voice 1 VE)" 500]
  by (simp add: init_locals_def example_driver_def example_voice_def payload_def ESC_def)

text \<open>
  Claim C3 as stated fails under SAPI5: the break causes no flush. The text before it, the
  pause and the text behind it reach the voice in one \<^verbatim>\<open>speak\<close> call at the end of the
  stream.
\<close>

theorem break_buffered_sapi5:
  "multiplex (example_driver (example_voice 0 SAPI5) (example_voice 1 SAPI5))
     [Text ''a'', BreakCommand 500, Text ''b'']
   = ([Speak (example_voice 0 SAPI5) (''a<silence msec='' @ [QUOTE] @ ''500'' @ [QUOTE] @ '' />b'')], None)"
  by code_simp


lemma seed_pitch_fields [simp]:
  "voiceInstance (seed_pitch v s) = voiceInstance s"
  "currentLanguage (seed_pitch v s) = currentLanguage s"
  "chunks (seed_pitch v s) = chunks s"
  "hasText (seed_pitch v s) = hasText s"
  "charMode (seed_pitch v s) = charMode s"
  "textList (seed_pitch v s) = textList s"
  "tagsChanged (seed_pitch v s) = tagsChanged s"
  "openedTags (seed_pitch v s) = openedTags s"
  "item (seed_pitch v s) = item s"
  "calls (seed_pitch v s) = calls s"
  by (simp_all add: seed_pitch_def)

lemma flush_currentLanguage [simp]:
  "currentLanguage (ve_flush_old self s) = currentLanguage s"
  "currentLanguage (sapi5_flush s) = currentLanguage s"
  "currentLanguage (aisound_flush_old self s) = currentLanguage s"
  by (simp_all add: ve_flush_old_def sapi5_flush_def aisound_flush_old_def outputTags_def
      emit_def Let_def)

lemma change_language_switch:
  "Some code \<noteq> currentLanguage s \<Longrightarrow> resolve self code \<noteq> voiceInstance s \<Longrightarrow>
   change_language self flush_old (Some code) s =
     seed_pitch (resolve self code)
       ((flush_old (s\<lparr>currentLanguage := Some code\<rparr>))\<lparr>voiceInstance := resolve self code\<rparr>)"
  by (simp add: change_language_def)



lemma step_langchange:
  "c = LangChangeCommand lang \<or> c = WVLangChangeCommand lang \<Longrightarrow>
   step self c s =
     (case engine (voiceInstance s) of
        VE \<Rightarrow> Inr (change_language self (ve_flush_old self) lang s)
      | SAPI5 \<Rightarrow> Inr (change_language self sapi5_flush lang (s\<lparr>item := Some c\<rparr>))
      | Aisound \<Rightarrow> Inr (change_language self (aisound_flush_old self) lang (s\<lparr>item := Some c\<rparr>))
      | OtherEngine \<Rightarrow> Inr s)"
  by (auto simp: step_def split: engine.splits)

text \<open>
  Claim C5, as amended. A language change that carries a language code other than the
  current language and resolves to a voice other than the active one sends the buffer to
  the old voice before the new voice is adopted: under SAPI5 the whole markup buffer,
  followed by the closing tags of all open tags; under aisound the chunk buffer; under VE
  the chunk buffer if it holds text (\<^verbatim>\<open>hasText\<close>), while a chunk buffer that holds no text
  is emptied without being sent.
\<close>

theorem voice_switch_flush:
  assumes c: "c = LangChangeCommand (Some code) \<or> c = WVLangChangeCommand (Some code)"
    and lang: "Some code \<noteq> currentLanguage s"
    and new: "resolve self code \<noteq> voiceInstance s"
  shows
  "(engine (voiceInstance s) = VE \<longrightarrow>
      (\<exists>s'. step self c s = Inr s' \<and>
        calls s' = calls s @ (if hasText s then [Speak (voiceInstance s) (payload self (chunks s))] else []) \<and>
        chunks s' = [] \<and> hasText s' = False \<and>
        voiceInstance s' = resolve self code \<and> currentLanguage s' = Some code)) \<and>
   (engine (voiceInstance s) = SAPI5 \<longrightarrow>
      (\<exists>s'. step self c s = Inr s' \<and>
        calls s' = calls s @ [Speak (voiceInstance s)
           (concat (textList s) @ concat (map (\<lambda>tag. ''</'' @ tag @ ''>'') (rev (openedTags s))))] \<and>
        textList s' = [] \<and> openedTags s' = [] \<and>
        voiceInstance s' = resolve self code \<and> currentLanguage s' = Some code)) \<and>
   (engine (voiceInstance s) = Aisound \<longrightarrow>
      (\<exists>s'. step self c s = Inr s' \<and>
        calls s' = calls s @ [Speak (voiceInstance s) (payload self (chunks s))] \<and>
        chunks s' = chunks s \<and>
        voiceInstance s' = resolve self code \<and> currentLanguage s' = Some code))"
proof (intro conjI impI)
  assume e: "engine (voiceInstance s) = VE"
  show "\<exists>s'. step self c s = Inr s' \<and>
        calls s' = calls s @ (if hasText s then [Speak (voiceInstance s) (payload self (chunks s))] else []) \<and>
        chunks s' = [] \<and> hasText s' = False \<and>
        voiceInstance s' = resolve self code \<and> currentLanguage s' = Some code"
    using step_langchange [OF c, of self s] e lang new
    by (simp add: change_language_switch ve_flush_old_def emit_def)
next
  assume e: "engine (voiceInstance s) = SAPI5"
  show "\<exists>s'. step self c s = Inr s' \<and>
        calls s' = calls s @ [Speak (voiceInstance s)
           (concat (textList s) @ concat (map (\<lambda>tag. ''</'' @ tag @ ''>'') (rev (openedTags s))))] \<and>
        textList s' = [] \<and> openedTags s' = [] \<and>
        voiceInstance s' = resolve self code \<and> currentLanguage s' = Some code"
    using step_langchange [OF c, of self s] e lang new
    by (simp add: change_language_switch sapi5_flush_def outputTags_def emit_def Let_def)
next
  assume e: "engine (voiceInstance s) = Aisound"
  show "\<exists>s'. step self c s = Inr s' \<and>
        calls s' = calls s @ [Speak (voiceInstance s) (payload self (chunks s))] \<and>
        chunks s' = chunks s \<and>
        voiceInstance s' = resolve self code \<and> currentLanguage s' = Some code"
    using step_langchange [OF c, of self s] e lang new
    by (simp add: change_language_switch aisound_flush_old_def emit_def)
qed

text \<open>
  Claim C5 as stated fails under VE: the index marker is buffered when the second language
  change switches the voice, \<^verbatim>\<open>hasText\<close> is false, and the marker reaches no voice.
\<close>

theorem voice_switch_drops_index:
  "speak_stabilized (example_driver (example_voice 0 VE) (example_voice 1 VE))
     [IndexCommand 1, LangChangeCommand (Some ''de''), LangChangeCommand (Some ''fr'')]
   = ([], None)"
  by code_simp



lemma py_round_nearest: "\<bar>of_int (py_round x) - x\<bar> \<le> 1 / 2"
proof -
  have "of_int \<lfloor>x\<rfloor> \<le> x" "x < of_int \<lfloor>x\<rfloor> + 1" by linarith+
  then show ?thesis
    unfolding py_round_def Let_def by (auto simp: abs_le_iff)
qed

text \<open>
  Claim C9, as amended. Under VE a rate command and a pitch command append one directive
  whose value is an integer nearest to \<open>100 * 2 powr ((b - 50) / factor)\<close>, where \<open>b\<close> is
  the new value bounded to \<open>0..100\<close>, and \<open>factor\<close> is 25 for a rate with \<open>b \<ge> 50\<close> and
  50 otherwise. A volume command appends a directive whose value is \<open>b\<close> itself.
\<close>

theorem ve_prosody_tokens:
  assumes ve: "engine (voiceInstance s) = VE"
  shows
  "(\<exists>v. step self (RateCommand newValue m) s =
          Inr (s\<lparr>chunks := chunks s @ [directive ''rate'' (show_int v)]\<rparr>) \<and>
        \<bar>real_of_int v - 100 * 2 powr ((of_int (max 0 (min newValue 100)) - 50)
                       / (if max 0 (min newValue 100) \<ge> 50 then 25 else 50))\<bar> \<le> 1 / 2) \<and>
   (\<exists>v. step self (PitchCommand newValue m) s =
          Inr (s\<lparr>chunks := chunks s @ [directive ''pitch'' (show_int v)]\<rparr>) \<and>
        \<bar>real_of_int v - 100 * 2 powr ((of_int (max 0 (min newValue 100)) - 50) / 50)\<bar> \<le> 1 / 2) \<and>
   step self (VolumeCommand newValue m) s =
     Inr (s\<lparr>chunks := chunks s @ [directive ''vol'' (show_int (max 0 (min newValue 100)))]\<rparr>)"
proof (intro conjI)
  let ?b = "max 0 (min newValue 100)"
  let ?x = "2 powr ((of_int ?b - 50) / (if ?b \<ge> 50 then 25 else 50)) * 100"
  have "step self (RateCommand newValue m) s =
          Inr (s\<lparr>chunks := chunks s @ [directive ''rate'' (show_int (py_round ?x))]\<rparr>)"
    using ve by (simp add: step_def append_chunk_def ve_rate_def boundedValue_def Let_def)
  moreover have "\<bar>real_of_int (py_round ?x) - 100 * 2 powr ((of_int ?b - 50)
                       / (if ?b \<ge> 50 then 25 else 50))\<bar> \<le> 1 / 2"
    using py_round_nearest [of ?x] by (simp add: mult.commute)
  ultimately show "\<exists>v. step self (RateCommand newValue m) s =
          Inr (s\<lparr>chunks := chunks s @ [directive ''rate'' (show_int v)]\<rparr>) \<and>
        \<bar>real_of_int v - 100 * 2 powr ((of_int ?b - 50) / (if ?b \<ge> 50 then 25 else 50))\<bar> \<le> 1 / 2"
    by blast
next
  let ?b = "max 0 (min newValue 100)"
  let ?x = "2 powr ((of_int ?b - 50) / 50) * 100"
  have "step self (PitchCommand newValue m) s =
          Inr (s\<lparr>chunks := chunks s @ [directive ''pitch'' (show_int (py_round ?x))]\<rparr>)"
    using ve by (simp add: step_def append_chunk_def ve_pitch_def boundedValue_def Let_def)
  moreover have "\<bar>real_of_int (py_round ?x) - 100 * 2 powr ((of_int ?b - 50) / 50)\<bar> \<le> 1 / 2"
    using py_round_nearest [of ?x] by (simp add: mult.commute)
  ultimately show "\<exists>v. step self (PitchCommand newValue m) s =
          Inr (s\<lparr>chunks := chunks s @ [directive ''pitch'' (show_int v)]\<rparr>) \<and>
        \<bar>real_of_int v - 100 * 2 powr ((of_int ?b - 50) / 50)\<bar> \<le> 1 / 2"
    by blast
next
  show "step self (VolumeCommand newValue m) s =
     Inr (s\<lparr>chunks := chunks s @ [directive ''vol'' (show_int (max 0 (min newValue 100)))]\<rparr>)"
    using ve by (simp add: step_def append_chunk_def boundedValue_def)
qed

theorem ve_prosody_tokens_witness:
  "engine (voiceInstance (init_locals (example_driver (example_voice 0 VE) (example_voice 1 VE)))) = VE \<and>
   step (example_driver (example_voice 0 VE) (example_voice 1 VE)) (VolumeCommand 120 1)
     (init_locals (example_driver (example_voice 0 VE) (example_voice 1 VE)))
   = Inr ((init_locals (example_driver (example_voice 0 VE) (example_voice 1 VE)))
            \<lparr>chunks := [directive ''vol'' ''100'']\<rparr>)"
proof -
  have ve: "engine (voiceInstance (init_locals (example_driver (example_voice 0 VE) (example_voice 1 VE)))) = VE"
    by (simp add: init_locals_def example_driver_def example_voice_def)
  have "show_int 100 = ''100''" by code_simp
  moreover have "step (example_driver (example_voice 0 VE) (example_voice 1 VE)) (VolumeCommand 120 1)
      (init_locals (example_driver (example_voice 0 VE) (example_voice 1 VE)))
    = Inr ((init_locals (example_driver (example_voice 0 VE) (example_voice 1 VE)))
        \<lparr>chunks := chunks (init_locals (example_driver (example_voice 0 VE) (example_voice 1 VE)))
            @ [directive ''vol'' (show_int (max 0 (min 120 100)))]\<rparr>)"
    using ve_prosody_tokens [OF ve, of "example_driver (example_voice 0 VE) (example_voice 1 VE)" 120 1]
    by blast
  ultimately show ?thesis
    using ve by (simp add: init_locals_def)
qed

text \<open>
  Claim C9 as stated fails for the volume: a volume of 100 is embedded as 100, where the
  curve gives 200.
\<close>

theorem ve_volume_not_on_curve:
  "step (example_driver (example_voice 0 VE) (example_voice 1 VE)) (VolumeCommand 100 1)
     (init_locals (example_driver (example_voice 0 VE) (example_voice 1 VE)))
   = Inr ((init_locals (example_driver (example_voice 0 VE) (example_voice 1 VE)))
            \<lparr>chunks := [directive ''vol'' ''100'']\<rparr>)
   \<and> py_round (2 powr ((100 - 50) / 50) * 100) = 200"
proof -
  have "show_int 100 = ''100''" by code_simp
  then show ?thesis
    by (simp add: step_def init_locals_def example_driver_def example_voice_def
        append_chunk_def boundedValue_def py_round_def)
qed

text \<open>
  Claim C2 fails under VE: the branch for an unsupported command reads \<^verbatim>\<open>item\<close>, which is
  unassigned, and the call ends with the exception before anything is sent.
\<close>

theorem unsupported_command_raises_in_ve:
  "speak_stabilized (example_driver (example_voice 0 VE) (example_voice 1 VE))
     [Text ''hello'', PhonemeCommand ''h'' (Some ''h''), Text ''world'']
   = ([], Some (UnboundLocalError ''item''))"
  by code_simp

theorem voice_switch_flush_witness:
  "Some ''fr'' \<noteq> currentLanguage ((init_locals (example_driver (example_voice 0 VE) (example_voice 1 SAPI5)))
        \<lparr>chunks := [''a''], hasText := True\<rparr>) \<and>
   (\<exists>s'. step (example_driver (example_voice 0 VE) (example_voice 1 SAPI5)) (LangChangeCommand (Some ''fr''))
           ((init_locals (example_driver (example_voice 0 VE) (example_voice 1 SAPI5)))
              \<lparr>chunks := [''a''], hasText := True\<rparr>) = Inr s' \<and>
         calls s' = [Speak (example_voice 0 VE) ''a''] \<and> chunks s' = [] \<and>
         voiceInstance s' = example_voice 1 SAPI5)"
proof -
  let ?D = "example_driver (example_voice 0 VE) (example_voice 1 SAPI5)"
  let ?S = "(init_locals ?D)\<lparr>chunks := [''a''], hasText := True\<rparr>"
  have l: "Some ''fr'' \<noteq> currentLanguage ?S"
    by (simp add: init_locals_def example_driver_def)
  have n: "resolve ?D ''fr'' \<noteq> voiceInstance ?S"
    by (simp add: init_locals_def example_driver_def example_voice_def resolve_def)
  have e: "engine (voiceInstance ?S) = VE"
    by (simp add: init_locals_def example_driver_def example_voice_def)
  have r: "resolve ?D ''fr'' = example_voice 1 SAPI5"
    by (simp add: example_driver_def resolve_def)
  have p: "payload ?D [''a''] = ''a''"
    by (simp add: payload_def ESC_def)
  show ?thesis
    using l e r p voice_switch_flush [where c = "LangChangeCommand (Some ''fr'')" and code = "''fr''"
        and s = ?S and self = ?D, OF _ l n]
    by (auto simp: init_locals_def example_driver_def)
qed


text \<open>
  Claim C4 fails: in mode \<^verbatim>\<open>value\<close> the segment \<^verbatim>\<open>23\<close> of the run \<^verbatim>\<open>1.23.4\<close> has its
  digit \<^verbatim>\<open>2\<close> substituted. The condition of the branch is true for every segment.
\<close>

theorem resplit_value_mode_substitutes_long_segment:
  "resplit ''.'' number_pattern ''v1.23.4''  ''value'' ''en''
     (Some [''2'' \<mapsto> \<lparr>symbol_language = ''en'', symbol_replacement = Some ''two''\<rparr>])
   = Inr [Text ''v'', WVLangChangeCommand (Some ''StartNumber''), Text ''1.two3.4'',
          WVLangChangeCommand (Some ''EndNumber''), Text '''']
   \<and> (\<forall>translate_dict n. segment translate_dict n = translate translate_dict n)"
proof -
  have "resplit ''.'' number_pattern ''v1.23.4''  ''value'' ''en''
     (Some [''2'' \<mapsto> \<lparr>symbol_language = ''en'', symbol_replacement = Some ''two''\<rparr>])
   = Inr [Text ''v'', WVLangChangeCommand (Some ''StartNumber''), Text ''1.two3.4'',
          WVLangChangeCommand (Some ''EndNumber''), Text '''']"
    by code_simp
  then show ?thesis by (simp add: segment_def truthy_def)
qed

text \<open>
  Claim C7 fails for a language change of the host's class: the second pass does not read
  it, and the marker behind the number carries the driver's language \<^verbatim>\<open>en\<close>, while
  \<^verbatim>\<open>fr\<close> is in force. The same sequence with the driver's own class of language change
  gives \<^verbatim>\<open>fr\<close>.
\<close>

theorem coercion_ignores_host_language_change:
  "coercionNumberLangChange ''.'' (Some ''en'')
     [LangChangeCommand (Some ''fr''), Text ''a1b''] ''value'' ''zh'' None
   = Inr [LangChangeCommand (Some ''fr''), Text ''a'', WVLangChangeCommand (Some ''zh''),
          Text ''1'', WVLangChangeCommand (Some ''en''), Text ''b'']
   \<and>
   coercionNumberLangChange ''.'' (Some ''en'')
     [WVLangChangeCommand (Some ''fr''), Text ''a1b''] ''value'' ''zh'' None
   = Inr [WVLangChangeCommand (Some ''fr''), Text ''a'', WVLangChangeCommand (Some ''zh''),
          Text ''1'', WVLangChangeCommand (Some ''fr''), Text ''b'']"
  by code_simp

section \<open>Text content delivered to the voices\<close>










lemma ve_flush_old_fields [simp]:
  "voiceInstance (ve_flush_old self s) = voiceInstance s"
  "item (ve_flush_old self s) = item s"
  "chunks (ve_flush_old self s) = []"
  "hasText (ve_flush_old self s) = False"
  "calls (ve_flush_old self s) =
     calls s @ (if hasText s then [Speak (voiceInstance s) (payload self (chunks s))] else [])"
  by (simp_all add: ve_flush_old_def emit_def)












































lemma pending_seed [simp]: "pending (seed_pitch v s) = pending s"
  by (simp add: pending_def)





















end
